theory Spec2Isabelle
  imports Complex_Main
begin

section \<open>Python values\<close>

text \<open>
  Python floats are modelled as exact reals: every product, quotient and comparison of the
  source is taken without rounding error. Python's unbounded \<open>int\<close> is \<open>int\<close>.
  A string is a \<open>char list\<close>; \<open>len\<close> counts its characters.
\<close>

text \<open>
  \<open>round(x, n)\<close> rounds to \<open>n\<close> decimals, a tie going to the even neighbour.
\<close>

definition round_half_even :: "real \<Rightarrow> int" where
  "round_half_even x =
     (let f = \<lfloor>x\<rfloor>; d = x - of_int f
      in if d < 1 / 2 then f
         else if 1 / 2 < d then f + 1
         else if even f then f else f + 1)"

definition py_round :: "real \<Rightarrow> nat \<Rightarrow> real" where
  "py_round x n = of_int (round_half_even (x * 10 ^ n)) / 10 ^ n"


text \<open>
  \<open>d.get(key, default)\<close> on a dict or a pandas Series: \<open>None\<close> is the absent key.
\<close>

definition get_or :: "'a option \<Rightarrow> 'a \<Rightarrow> 'a" where
  "get_or field dflt = (case field of None \<Rightarrow> dflt | Some v \<Rightarrow> v)"

section \<open>Profiles\<close>

text \<open>
  A profile is a loosely typed mapping in the source (a pandas Series, or a JSON object in
  the model API). Every field but the identifier is optional: \<open>None\<close> stands for a key
  that is absent. An experience entry is a dict of which only \<open>duration_months\<close> is read.
\<close>

record job =
  duration_months :: "int option"

record profile =
  profile_id :: string
  name :: "string option"
  headline :: "string option"
  about :: "string option"
  current_role :: "string option"
  current_company :: "string option"
  seniority_level :: "string option"
  industry :: "string option"
  location :: "string option"
  remote_preference :: "string option"
  years_experience :: "int option"
  connections :: "int option"
  skills :: "string list option"
  needs :: "string list option"
  can_offer :: "string list option"
  experience :: "job list option"
  education :: "string list option"
  red_flag_score :: "real option"
  red_flag_reasons :: "string option"
  gem_score :: "real option"
  gem_type :: "string option"
  gem_reason :: "string option"

text \<open>The profile that carries no optional field at all.\<close>

definition bare_profile :: "string \<Rightarrow> profile" where
  "bare_profile pid =
     \<lparr>profile_id = pid, name = None, headline = None, about = None, current_role = None,
      current_company = None, seniority_level = None, industry = None, location = None,
      remote_preference = None, years_experience = None, connections = None, skills = None,
      needs = None, can_offer = None, experience = None, education = None,
      red_flag_score = None, red_flag_reasons = None, gem_score = None, gem_type = None,
      gem_reason = None\<rparr>"

section \<open>Model API: the red-flag penalty of \<open>predict_compatibility\<close>\<close>

text \<open>
  \<open>model-api/app.py\<close>, \<open>predict_compatibility\<close>. The regression model is an external
  artefact: its output for the pair, \<open>score\<close>, is a parameter here. The function then
  reads the target's \<open>red_flag_score\<close> (default 0), picks the multiplier, and returns the product
  rounded to one decimal together with the rounded raw score and the multiplier.
\<close>

definition red_flag_multiplier_of :: "real \<Rightarrow> real" where
  "red_flag_multiplier_of red_flag =
     (if red_flag > 75 then 0.80
      else if red_flag > 50 then 0.90
      else if red_flag > 25 then 0.95
      else 1.0)"

definition final_score :: "real \<Rightarrow> profile \<Rightarrow> real" where
  "final_score score target_profile =
     (let red_flag = get_or (red_flag_score target_profile) 0;
          multiplier = red_flag_multiplier_of red_flag
      in score * multiplier)"

record prediction =
  score :: real
  raw_score :: real
  red_flag_multiplier :: real

definition predict_compatibility :: "real \<Rightarrow> profile \<Rightarrow> prediction" where
  "predict_compatibility model_score target_profile =
     \<lparr>score = py_round (final_score model_score target_profile) 1,
      raw_score = py_round model_score 1,
      red_flag_multiplier =
        red_flag_multiplier_of (get_or (red_flag_score target_profile) 0)\<rparr>"

section \<open>Python strings\<close>










section \<open>Compatibility feature engine\<close>































section \<open>Red-flag detector\<close>















section \<open>Hidden-gem detector: corpus skill rarity\<close>

text \<open>
  \<open>src/features/hidden_gems_detector.py\<close>, \<open>HiddenGemsDetector._calculate_skill_rarity\<close>.
  The skills of every profile whose \<open>skills\<close> entry is a list are collected with their
  repetitions; a \<open>Counter\<close> gives the number of occurrences of each, and the loop over its
  items fills \<open>skill_rarity_map\<close>, which starts empty.
\<close>

definition all_skills :: "profile list \<Rightarrow> string list" where
  "all_skills profiles_df =
     concat (map (\<lambda>p. case skills p of None \<Rightarrow> [] | Some ss \<Rightarrow> ss) profiles_df)"

definition skill_frequency :: "profile list \<Rightarrow> string \<Rightarrow> real" where
  "skill_frequency profiles_df skill =
     real (count_list (all_skills profiles_df) skill) / real (length profiles_df)"

definition calculate_skill_rarity :: "profile list \<Rightarrow> (string \<rightharpoonup> real)" where
  "calculate_skill_rarity profiles_df =
     fold (\<lambda>skill skill_rarity_map.
             let frequency = skill_frequency profiles_df skill
             in if frequency < 0.05
                then skill_rarity_map(skill \<mapsto> 90 + (0.05 - frequency) * 200)
                else if frequency < 0.15
                then skill_rarity_map(skill \<mapsto> 70 + (0.15 - frequency) * 100)
                else if frequency < 0.30
                then skill_rarity_map(skill \<mapsto> 40 + (0.30 - frequency) * 100)
                else skill_rarity_map(skill \<mapsto> max 10 (40 - frequency * 50)))
          (remdups (all_skills profiles_df)) Map.empty"

text \<open>The band chain of the loop body, as a function of the frequency.\<close>

definition rarity_band :: "real \<Rightarrow> real" where
  "rarity_band frequency =
     (if frequency < 0.05 then 90 + (0.05 - frequency) * 200
      else if frequency < 0.15 then 70 + (0.15 - frequency) * 100
      else if frequency < 0.30 then 40 + (0.30 - frequency) * 100
      else max 10 (40 - frequency * 50))"

section \<open>Connection recommender\<close>

text \<open>
  \<open>src/models/connection_recommender.py\<close>, class \<open>ConnectionRecommender\<close>. A DataFrame
  is the list of its rows, in frame order. A row of \<open>pairs_df\<close> has the two profile ids and
  the column \<open>compatibility_score\<close>; the columns \<open>predicted_job_opportunity_score\<close>,
  \<open>predicted_mentorship_value\<close>, \<open>predicted_collaboration_potential\<close>, \<open>roi_timeframe\<close> and
  \<open>mutual_benefit_explanation\<close> are read with \<open>get\<close> and may be absent (\<open>None\<close>). The
  fields carry the prefix \<open>pair_\<close>, the column names being taken by the feature dict.
  The rows of \<open>profiles_df\<close> are profiles; \<open>profiles_columns\<close> lists the optional columns
  the frame has, for the tests of the form \<open>'c' in self.profiles_df.columns\<close>. Profile
  ids are unique in the data model, so \<open>profile_lookup.loc[id]\<close> is the first row with
  that id.
\<close>

record pair_row =
  profile_a_id :: string
  profile_b_id :: string
  pair_compatibility_score :: real
  pair_job_opportunity_score :: "real option"
  pair_mentorship_value :: "real option"
  pair_collaboration_potential :: "real option"
  pair_roi_timeframe :: "string option"
  pair_explanation :: "string option"

record recommender =
  pairs_df :: "pair_row list"
  profiles_df :: "profile list"
  profiles_columns :: "string list"
  filter_red_flags :: bool
  red_flag_threshold :: real

text \<open>The constructor with its default arguments.\<close>

definition init_recommender :: "pair_row list \<Rightarrow> profile list \<Rightarrow> string list \<Rightarrow> recommender" where
  "init_recommender pairs profiles columns =
     \<lparr>pairs_df = pairs, profiles_df = profiles, profiles_columns = columns,
      filter_red_flags = True, red_flag_threshold = 50.0\<rparr>"

definition profile_lookup :: "recommender \<Rightarrow> string \<Rightarrow> profile option" where
  "profile_lookup rec pid = find (\<lambda>p. profile_id p = pid) (profiles_df rec)"

text \<open>The rows of the results: the candidate with its summary, then the scores.\<close>

record candidate_row =
  candidate_id :: string
  candidate_name :: "string option"
  candidate_role :: "string option"
  candidate_company :: "string option"
  candidate_seniority :: "string option"
  candidate_industry :: "string option"

record recommendation = candidate_row +
  ranking_score :: real
  rec_compatibility_score :: real
  rec_job_opportunity_score :: "real option"
  rec_mentorship_value :: "real option"
  rec_collaboration_potential :: "real option"
  rec_roi_timeframe :: "string option"

record gem = candidate_row +
  gem_pair :: pair_row
  merged_gem_score :: "real option"
  merged_gem_type :: "string option"
  merged_gem_reason :: "string option"

text \<open>
  \<open>_calculate_ranking_score\<close>, row by row. \<open>pairs_df.get(column, 0)\<close> is the column, or
  0 when the frame has no such column.
\<close>

definition calculate_ranking_score :: "pair_row \<Rightarrow> string \<Rightarrow> real" where
  "calculate_ranking_score r strategy =
     (if strategy = ''compatibility'' then pair_compatibility_score r
      else if strategy = ''roi'' then
        let job_score = get_or (pair_job_opportunity_score r) 0;
            mentor_score = get_or (pair_mentorship_value r) 0;
            collab_score = get_or (pair_collaboration_potential r) 0
        in pair_compatibility_score r * 0.4 + job_score * 0.25 + mentor_score * 0.2
           + collab_score * 0.15
      else if strategy = ''mentorship'' then
        let mentor_score = get_or (pair_mentorship_value r) 0
        in mentor_score * 0.6 + pair_compatibility_score r * 0.4
      else if strategy = ''collaboration'' then
        let collab_score = get_or (pair_collaboration_potential r) 0
        in collab_score * 0.6 + pair_compatibility_score r * 0.4
      else pair_compatibility_score r)"

text \<open>
  \<open>DataFrame.nlargest(n, column)\<close>: the first \<open>n\<close> rows in descending order of the column,
  rows with equal values in frame order. \<open>n\<close> is a count.
\<close>

definition nlargest :: "nat \<Rightarrow> ('a \<Rightarrow> real) \<Rightarrow> 'a list \<Rightarrow> 'a list" where
  "nlargest n key rows = take n (sort_key (\<lambda>r. - key r) rows)"

text \<open>The same for a column with missing values: the rows without a value come last.\<close>

definition nlargest_opt :: "nat \<Rightarrow> ('a \<Rightarrow> real option) \<Rightarrow> 'a list \<Rightarrow> 'a list" where
  "nlargest_opt n key rows =
     take n (sort_key (\<lambda>r. - get_or (key r) 0) (filter (\<lambda>r. key r \<noteq> None) rows)
             @ filter (\<lambda>r. key r = None) rows)"

definition candidate_of :: "string \<Rightarrow> pair_row \<Rightarrow> string" where
  "candidate_of user_id row =
     (if profile_a_id row = user_id then profile_b_id row else profile_a_id row)"

definition enrich_recommendations :: "recommender \<Rightarrow> 'a candidate_row_scheme \<Rightarrow> 'a candidate_row_scheme" where
  "enrich_recommendations rec row =
     (case profile_lookup rec (candidate_id row) of
        None \<Rightarrow> row
      | Some profile \<Rightarrow>
          row\<lparr>candidate_name := Some (get_or (name profile) ''Unknown''),
              candidate_role := Some (get_or (current_role profile) ''Unknown''),
              candidate_company := Some (get_or (current_company profile) ''Unknown''),
              candidate_seniority := Some (get_or (seniority_level profile) ''Unknown''),
              candidate_industry := Some (get_or (industry profile) ''Unknown'')\<rparr>)"

text \<open>
  A comparison with a missing value is false, so a profile without a score is neither a
  red-flag profile nor a gem profile.
\<close>

definition exceeds :: "real option \<Rightarrow> real \<Rightarrow> bool" where
  "exceeds v threshold = (case v of None \<Rightarrow> False | Some x \<Rightarrow> x > threshold)"

definition reaches :: "real option \<Rightarrow> real \<Rightarrow> bool" where
  "reaches v threshold = (case v of None \<Rightarrow> False | Some x \<Rightarrow> x \<ge> threshold)"

definition recommend_for_user ::
  "recommender \<Rightarrow> string \<Rightarrow> nat \<Rightarrow> real \<Rightarrow> string \<Rightarrow> recommendation list" where
  "recommend_for_user rec user_id top_n min_compatibility strategy =
     (let user_pairs = filter (\<lambda>r. profile_a_id r = user_id \<or> profile_b_id r = user_id)
                         (pairs_df rec)
      in if length user_pairs = 0 then []
         else
           let with_candidate = map (\<lambda>r. (candidate_of user_id r, r)) user_pairs;
               compatible = filter (\<lambda>(c, r). pair_compatibility_score r \<ge> min_compatibility)
                              with_candidate;
               kept =
                 (if filter_red_flags rec \<and> ''red_flag_score'' \<in> set (profiles_columns rec)
                  then
                    let red_flag_profiles =
                          set (map profile_id
                                 (filter (\<lambda>p. exceeds (red_flag_score p) (red_flag_threshold rec))
                                    (profiles_df rec)))
                    in filter (\<lambda>(c, r). c \<notin> red_flag_profiles) compatible
                  else compatible);
               ranked =
                 map (\<lambda>(c, r).
                        \<lparr>candidate_id = c, candidate_name = None, candidate_role = None,
                         candidate_company = None, candidate_seniority = None,
                         candidate_industry = None,
                         ranking_score = calculate_ranking_score r strategy,
                         rec_compatibility_score = pair_compatibility_score r,
                         rec_job_opportunity_score = pair_job_opportunity_score r,
                         rec_mentorship_value = pair_mentorship_value r,
                         rec_collaboration_potential = pair_collaboration_potential r,
                         rec_roi_timeframe = pair_roi_timeframe r\<rparr>)
                     kept;
               recommendations = nlargest top_n ranking_score ranked
           in map (enrich_recommendations rec) recommendations)"

text \<open>
  \<open>get_hidden_gems\<close>. Selecting the gem columns of \<open>profiles_df\<close> raises KeyError when one
  of them is not a column of the frame. The left merge gives one row for every profile row
  with the candidate's id, and one row without gem values when there is none.
\<close>

datatype py_error = KeyError string

definition merge_left :: "recommender \<Rightarrow> string \<times> pair_row \<Rightarrow> gem list" where
  "merge_left rec cr =
     (let c = fst cr; r = snd cr;
          matches = filter (\<lambda>p. profile_id p = c) (profiles_df rec)
      in if matches = []
         then [\<lparr>candidate_id = c, candidate_name = None, candidate_role = None,
                candidate_company = None, candidate_seniority = None,
                candidate_industry = None, gem_pair = r, merged_gem_score = None,
                merged_gem_type = None, merged_gem_reason = None\<rparr>]
         else map (\<lambda>p. \<lparr>candidate_id = c, candidate_name = None, candidate_role = None,
                         candidate_company = None, candidate_seniority = None,
                         candidate_industry = None, gem_pair = r,
                         merged_gem_score = gem_score p, merged_gem_type = gem_type p,
                         merged_gem_reason = gem_reason p\<rparr>) matches)"

definition get_hidden_gems ::
  "recommender \<Rightarrow> string \<Rightarrow> nat \<Rightarrow> real \<Rightarrow> py_error + gem list" where
  "get_hidden_gems rec user_id top_n min_gem_score =
     (let user_pairs = filter (\<lambda>r. profile_a_id r = user_id \<or> profile_b_id r = user_id)
                         (pairs_df rec)
      in if length user_pairs = 0 then Inr []
         else
           let with_candidate = map (\<lambda>r. (candidate_of user_id r, r)) user_pairs;
               kept =
                 (if ''gem_score'' \<in> set (profiles_columns rec)
                  then
                    let gem_profiles =
                          map profile_id
                            (filter (\<lambda>p. reaches (gem_score p) min_gem_score) (profiles_df rec))
                    in filter (\<lambda>(c, r). c \<in> set gem_profiles) with_candidate
                  else with_candidate)
           in case filter (\<lambda>col. col \<notin> set (profiles_columns rec))
                     [''gem_score'', ''gem_type'', ''gem_reason''] of
                col # _ \<Rightarrow> Inl (KeyError col)
              | [] \<Rightarrow>
                  let gems = concat (map (merge_left rec) kept);
                      top = nlargest_opt top_n merged_gem_score gems
                  in Inr (map (enrich_recommendations rec) top))"









section \<open>Example inputs\<close>




text \<open>A corpus of four profiles: one skill in every profile, two in one profile each.\<close>

definition corpus :: "profile list" where
  "corpus =
     [(bare_profile ''p1'')\<lparr>skills := Some [''Python'', ''SQL'']\<rparr>,
      (bare_profile ''p2'')\<lparr>skills := Some [''Python'']\<rparr>,
      (bare_profile ''p3'')\<lparr>skills := Some [''Python'', ''Rust'']\<rparr>,
      (bare_profile ''p4'')\<lparr>skills := Some [''Python'']\<rparr>]"


text \<open>
  A user \<open>u\<close> with two candidate pairs, one strong on mentorship and one strong on
  compatibility, and the two candidates' profiles.
\<close>

definition mentor_pair :: pair_row where
  "mentor_pair =
     \<lparr>profile_a_id = ''u'', profile_b_id = ''mentor'', pair_compatibility_score = 50,
      pair_job_opportunity_score = Some 30, pair_mentorship_value = Some 90,
      pair_collaboration_potential = Some 20, pair_roi_timeframe = Some ''6-12 months'',
      pair_explanation = Some ''ADVISORY''\<rparr>"

definition peer_pair :: pair_row where
  "peer_pair =
     \<lparr>profile_a_id = ''peer'', profile_b_id = ''u'', pair_compatibility_score = 80,
      pair_job_opportunity_score = Some 30, pair_mentorship_value = Some 40,
      pair_collaboration_potential = Some 70, pair_roi_timeframe = Some ''weeks'',
      pair_explanation = Some ''PEER COLLABORATION''\<rparr>"

definition ada :: profile where
  "ada = (bare_profile ''mentor'')
     \<lparr>name := Some ''Ada'', red_flag_score := Some 10, gem_score := Some 75,
      gem_type := Some ''rising_star'', gem_reason := Some ''Rising star''\<rparr>"

definition bo :: profile where
  "bo = (bare_profile ''peer'')
     \<lparr>name := Some ''Bo'', red_flag_score := Some 20, gem_score := Some 20,
      gem_type := Some ''none'', gem_reason := Some ''Not a significant hidden gem''\<rparr>"

definition scenario :: recommender where
  "scenario =
     init_recommender [peer_pair, mentor_pair] [ada, bo]
       [''name'', ''red_flag_score'', ''gem_score'', ''gem_type'', ''gem_reason'']"

text \<open>
  The same pairs with a red-flagged peer and red-flag filtering switched off, as the
  constructor allows.
\<close>

definition flagged_bo :: profile where
  "flagged_bo = bo\<lparr>red_flag_score := Some 90\<rparr>"

definition unfiltered :: recommender where
  "unfiltered =
     \<lparr>pairs_df = [peer_pair, mentor_pair],
      profiles_df = [ada, flagged_bo],
      profiles_columns = [''name'', ''red_flag_score'', ''gem_score'', ''gem_type'', ''gem_reason''],
      filter_red_flags = False, red_flag_threshold = 50.0\<rparr>"

definition filtered :: recommender where
  "filtered = unfiltered\<lparr>filter_red_flags := True\<rparr>"

section \<open>Properties of the feature engine\<close>

























section \<open>Properties of the red-flag penalty\<close>

lemma red_flag_multiplier_of_range:
  "0 < red_flag_multiplier_of r \<and> red_flag_multiplier_of r \<le> 1"
  by (simp add: red_flag_multiplier_of_def)

text \<open>
  C2, as the code has it. The final score is the predicted score times the band multiplier
  of the target's red-flag score: 0.80 above 75, 0.90 above 50, 0.95 above 25, 1 otherwise
  (so a red-flag score of 80 gives 0.80 times the predicted score). No clamp is applied:
  the final score lies in [0,100] whenever the predicted score does.
\<close>

theorem final_score_penalty_bands:
  "final_score S t =
     (let rf = get_or (red_flag_score t) 0
      in if rf > 75 then S * 0.80
         else if rf > 50 then S * 0.90
         else if rf > 25 then S * 0.95
         else S)
   \<and> final_score S (t\<lparr>red_flag_score := Some 80\<rparr>) = 0.80 * S
   \<and> (0 \<le> S \<and> S \<le> 100 \<longrightarrow> 0 \<le> final_score S t \<and> final_score S t \<le> 100)"
proof -
  let ?m = "red_flag_multiplier_of (get_or (red_flag_score t) 0)"
  have bands: "final_score S t =
     (let rf = get_or (red_flag_score t) 0
      in if rf > 75 then S * 0.80
         else if rf > 50 then S * 0.90
         else if rf > 25 then S * 0.95
         else S)"
    by (simp add: final_score_def red_flag_multiplier_of_def Let_def)
  have eighty: "final_score S (t\<lparr>red_flag_score := Some 80\<rparr>) = 0.80 * S"
    by (simp add: final_score_def red_flag_multiplier_of_def get_or_def)
  have range: "0 \<le> final_score S t \<and> final_score S t \<le> 100" if "0 \<le> S" "S \<le> 100"
  proof -
    have m: "0 < ?m" "?m \<le> 1"
      using red_flag_multiplier_of_range by blast+
    have eq: "final_score S t = S * ?m"
      by (simp add: final_score_def Let_def)
    have "0 \<le> S * ?m"
      using that(1) m(1) by simp
    moreover have "S * ?m \<le> S * 1"
      using that(1) m(2) by (intro mult_left_mono) simp_all
    ultimately show ?thesis
      using eq that(2) by simp
  qed
  from bands eighty range show ?thesis by blast
qed

theorem final_score_penalty_bands_witness:
  "final_score 50 ((bare_profile ''t'')\<lparr>red_flag_score := Some 60\<rparr>) = 45
   \<and> (0::real) \<le> 50 \<and> (50::real) \<le> 100
   \<and> 0 \<le> final_score 50 ((bare_profile ''t'')\<lparr>red_flag_score := Some 60\<rparr>)
   \<and> final_score 50 ((bare_profile ''t'')\<lparr>red_flag_score := Some 60\<rparr>) \<le> 100"
  using final_score_penalty_bands [of 50 "(bare_profile ''t'')\<lparr>red_flag_score := Some 60\<rparr>"]
  by (simp add: bare_profile_def get_or_def)

text \<open>
  The claim as worded also promises a clamp to [0,100]. The code has none: a predicted
  score of 150 for a target without red flags is returned as 150.
\<close>

theorem final_score_not_clamped_counterexample:
  "final_score 150 (bare_profile ''t'') = 150
   \<and> score (predict_compatibility 150 (bare_profile ''t'')) = 150
   \<and> \<not> (score (predict_compatibility 150 (bare_profile ''t'')) \<le> 100)"
  by (simp add: predict_compatibility_def final_score_def red_flag_multiplier_of_def
      get_or_def bare_profile_def py_round_def round_half_even_def)

section \<open>Properties of the detectors\<close>

lemma fold_rarity_lookup:
  "fold (\<lambda>skill m.
             let frequency = f skill
             in if frequency < 0.05
                then m(skill \<mapsto> 90 + (0.05 - frequency) * 200)
                else if frequency < 0.15
                then m(skill \<mapsto> 70 + (0.15 - frequency) * 100)
                else if frequency < 0.30
                then m(skill \<mapsto> 40 + (0.30 - frequency) * 100)
                else m(skill \<mapsto> max 10 (40 - frequency * 50)))
        ks m0 s
   = (if s \<in> set ks then Some (rarity_band (f s :: real)) else m0 s)"
  by (induction ks arbitrary: m0) (auto simp: rarity_band_def Let_def)

lemma calculate_skill_rarity_lookup:
  "calculate_skill_rarity ps s =
     (if s \<in> set (all_skills ps) then Some (rarity_band (skill_frequency ps s)) else None)"
  unfolding calculate_skill_rarity_def
  by (subst fold_rarity_lookup) simp

lemma rarity_band_antimono: "0 \<le> f1 \<Longrightarrow> f1 < f2 \<Longrightarrow> rarity_band f2 \<le> rarity_band f1"
  unfolding rarity_band_def by (auto simp: max_def)

lemma rarity_band_bands:
  "0 \<le> f \<Longrightarrow> (f < 0.05 \<longrightarrow> 90 \<le> rarity_band f) \<and> (f < 0.15 \<longrightarrow> 70 \<le> rarity_band f)
   \<and> (f < 0.30 \<longrightarrow> 40 \<le> rarity_band f)
   \<and> (0.30 \<le> f \<longrightarrow> 10 \<le> rarity_band f \<and> rarity_band f \<le> 40)"
  unfolding rarity_band_def by (auto simp: max_def)

lemma skill_frequency_nonneg: "0 \<le> skill_frequency ps s"
  by (simp add: skill_frequency_def)

text \<open>
  C5. For every profile corpus, every skill observed in it gets a rarity score, and of two
  observed skills the one with the strictly lower frequency has a rarity score at least as
  high. The bands hold: a frequency below 5% gives at least 90, below 15% at least 70, below
  30% at least 40, and from 30% on the score is at most 40 and at least 10. Frequencies and
  scores are exact reals here.
\<close>

theorem skill_rarity_monotone_banded:
  "(\<forall>s1 \<in> set (all_skills ps). \<forall>s2 \<in> set (all_skills ps).
      skill_frequency ps s1 < skill_frequency ps s2 \<longrightarrow>
      (\<exists>r1 r2. calculate_skill_rarity ps s1 = Some r1
               \<and> calculate_skill_rarity ps s2 = Some r2 \<and> r2 \<le> r1))
   \<and> (\<forall>s \<in> set (all_skills ps).
        \<exists>r. calculate_skill_rarity ps s = Some r
           \<and> (skill_frequency ps s < 0.05 \<longrightarrow> 90 \<le> r)
           \<and> (skill_frequency ps s < 0.15 \<longrightarrow> 70 \<le> r)
           \<and> (skill_frequency ps s < 0.30 \<longrightarrow> 40 \<le> r)
           \<and> (0.30 \<le> skill_frequency ps s \<longrightarrow> 10 \<le> r \<and> r \<le> 40))"
proof (intro conjI ballI impI)
  fix s1 s2
  assume s1: "s1 \<in> set (all_skills ps)" and s2: "s2 \<in> set (all_skills ps)"
    and lt: "skill_frequency ps s1 < skill_frequency ps s2"
  have "rarity_band (skill_frequency ps s2) \<le> rarity_band (skill_frequency ps s1)"
    using skill_frequency_nonneg lt by (rule rarity_band_antimono)
  with s1 s2 show "\<exists>r1 r2. calculate_skill_rarity ps s1 = Some r1
               \<and> calculate_skill_rarity ps s2 = Some r2 \<and> r2 \<le> r1"
    by (simp add: calculate_skill_rarity_lookup)
next
  fix s
  assume s: "s \<in> set (all_skills ps)"
  from rarity_band_bands[OF skill_frequency_nonneg, of ps s] s
  show "\<exists>r. calculate_skill_rarity ps s = Some r
           \<and> (skill_frequency ps s < 0.05 \<longrightarrow> 90 \<le> r)
           \<and> (skill_frequency ps s < 0.15 \<longrightarrow> 70 \<le> r)
           \<and> (skill_frequency ps s < 0.30 \<longrightarrow> 40 \<le> r)
           \<and> (0.30 \<le> skill_frequency ps s \<longrightarrow> 10 \<le> r \<and> r \<le> 40)"
    by (simp add: calculate_skill_rarity_lookup)
qed

theorem skill_rarity_monotone_banded_witness:
  "''SQL'' \<in> set (all_skills corpus) \<and> ''Python'' \<in> set (all_skills corpus)
   \<and> skill_frequency corpus ''SQL'' < skill_frequency corpus ''Python''
   \<and> (\<exists>r1 r2. calculate_skill_rarity corpus ''SQL'' = Some r1
              \<and> calculate_skill_rarity corpus ''Python'' = Some r2 \<and> r2 \<le> r1)
   \<and> calculate_skill_rarity corpus ''SQL'' = Some 45
   \<and> calculate_skill_rarity corpus ''Python'' = Some 10"
proof -
  have all: "all_skills corpus = [''Python'', ''SQL'', ''Python'', ''Python'', ''Rust'', ''Python'']"
    by (simp add: all_skills_def corpus_def bare_profile_def)
  have m1: "''SQL'' \<in> set (all_skills corpus)" and m2: "''Python'' \<in> set (all_skills corpus)"
    by (simp_all add: all)
  have f1: "skill_frequency corpus ''SQL'' = 1 / 4"
    by (simp add: skill_frequency_def all) (simp add: corpus_def)
  have f2: "skill_frequency corpus ''Python'' = 1"
    by (simp add: skill_frequency_def all) (simp add: corpus_def)
  have lt: "skill_frequency corpus ''SQL'' < skill_frequency corpus ''Python''"
    by (simp add: f1 f2)
  have r1: "calculate_skill_rarity corpus ''SQL'' = Some 45"
    by (simp add: calculate_skill_rarity_lookup m1 f1 rarity_band_def)
  have r2: "calculate_skill_rarity corpus ''Python'' = Some 10"
    by (simp add: calculate_skill_rarity_lookup m2 f2 rarity_band_def)
  from skill_rarity_monotone_banded[of corpus] m1 m2 lt
  have "\<exists>r1 r2. calculate_skill_rarity corpus ''SQL'' = Some r1
              \<and> calculate_skill_rarity corpus ''Python'' = Some r2 \<and> r2 \<le> r1"
    by blast
  with m1 m2 lt r1 r2 show ?thesis by blast
qed



section \<open>Properties of the recommender\<close>

lemma enrich_recommendations_keeps:
  "candidate_id (enrich_recommendations rec row) = candidate_id row"
  "ranking_score (enrich_recommendations rec row) = ranking_score row"
  "rec_compatibility_score (enrich_recommendations rec row) = rec_compatibility_score row"
  by (simp_all add: enrich_recommendations_def split: option.splits)

lemma nlargest_sorted: "sorted_wrt (\<lambda>x y. key y \<le> key x) (nlargest n key rows)"
proof -
  have "sorted (map (\<lambda>r. - key r) (sort_key (\<lambda>r. - key r) rows))"
    by (rule sorted_sort_key)
  then have "sorted_wrt (\<lambda>x y. key y \<le> key x) (sort_key (\<lambda>r. - key r) rows)"
    by (simp add: sorted_map)
  then show ?thesis
    unfolding nlargest_def by (rule sorted_wrt_take)
qed

lemma nlargest_length: "length (nlargest n key rows) \<le> n"
  by (simp add: nlargest_def)

lemma nlargest_subset: "set (nlargest n key rows) \<subseteq> set rows"
  unfolding nlargest_def using set_take_subset[of n "sort_key (\<lambda>r. - key r) rows"] by simp

lemma enrich_recommendations_keeps_mentorship:
  "rec_mentorship_value (enrich_recommendations rec row) = rec_mentorship_value row"
  by (simp add: enrich_recommendations_def split: option.splits)

text \<open>
  C6, as the code has it. For every user, \<open>top_n\<close>, minimum compatibility and strategy,
  the list returned by \<open>recommend_for_user\<close> is in descending order of \<open>ranking_score\<close>,
  has at most \<open>top_n\<close> entries and contains no pair whose \<open>compatibility_score\<close> is below
  the minimum. When red-flag filtering is enabled (the default) and the profile frame has a
  \<open>red_flag_score\<close> column, it contains no candidate whose \<open>red_flag_score\<close> exceeds the
  configured threshold.
\<close>

theorem recommend_for_user_sorted_filtered:
  "sorted_wrt (\<lambda>x y. ranking_score y \<le> ranking_score x)
     (recommend_for_user rec user_id top_n min_compatibility strategy)
   \<and> length (recommend_for_user rec user_id top_n min_compatibility strategy) \<le> top_n
   \<and> (\<forall>row \<in> set (recommend_for_user rec user_id top_n min_compatibility strategy).
        min_compatibility \<le> rec_compatibility_score row)
   \<and> (filter_red_flags rec \<and> ''red_flag_score'' \<in> set (profiles_columns rec) \<longrightarrow>
       (\<forall>row \<in> set (recommend_for_user rec user_id top_n min_compatibility strategy).
        \<forall>p \<in> set (profiles_df rec). profile_id p = candidate_id row \<longrightarrow>
          \<not> exceeds (red_flag_score p) (red_flag_threshold rec)))"
proof -
  define user_pairs where
    "user_pairs = filter (\<lambda>r. profile_a_id r = user_id \<or> profile_b_id r = user_id) (pairs_df rec)"
  define compatible where
    "compatible = filter (\<lambda>(c, r). pair_compatibility_score r \<ge> min_compatibility)
                    (map (\<lambda>r. (candidate_of user_id r, r)) user_pairs)"
  define flagged where
    "flagged = set (map profile_id
                 (filter (\<lambda>p. exceeds (red_flag_score p) (red_flag_threshold rec)) (profiles_df rec)))"
  define gate where
    "gate = (filter_red_flags rec \<and> ''red_flag_score'' \<in> set (profiles_columns rec))"
  define kept where
    "kept = (if gate then filter (\<lambda>(c, r). c \<notin> flagged) compatible else compatible)"
  define mk where
    "mk = (\<lambda>(c, r).
             \<lparr>candidate_id = c, candidate_name = None, candidate_role = None,
              candidate_company = None, candidate_seniority = None, candidate_industry = None,
              ranking_score = calculate_ranking_score r strategy,
              rec_compatibility_score = pair_compatibility_score r,
              rec_job_opportunity_score = pair_job_opportunity_score r,
              rec_mentorship_value = pair_mentorship_value r,
              rec_collaboration_potential = pair_collaboration_potential r,
              rec_roi_timeframe = pair_roi_timeframe r\<rparr>)"
  define top where "top = nlargest top_n ranking_score (map mk kept)"
  define result where "result = recommend_for_user rec user_id top_n min_compatibility strategy"
  have res: "result = (if length user_pairs = 0 then [] else map (enrich_recommendations rec) top)"
    unfolding result_def recommend_for_user_def Let_def user_pairs_def compatible_def flagged_def
      gate_def kept_def mk_def top_def by simp
  have kept_sub: "set kept \<subseteq> set compatible"
    by (auto simp: kept_def)
  have top_sub: "set top \<subseteq> mk ` set kept"
    using nlargest_subset[of top_n ranking_score "map mk kept"] by (simp add: top_def)
  have srt: "sorted_wrt (\<lambda>x y. ranking_score y \<le> ranking_score x) result"
  proof (cases "length user_pairs = 0")
    case True
    then show ?thesis by (simp add: res)
  next
    case False
    have "sorted_wrt (\<lambda>x y. ranking_score y \<le> ranking_score x) top"
      unfolding top_def by (rule nlargest_sorted)
    then show ?thesis
      using False by (simp add: res sorted_wrt_map enrich_recommendations_keeps)
  qed
  have len: "length result \<le> top_n"
    using nlargest_length[of top_n ranking_score "map mk kept"] by (simp add: res top_def)
  have compat: "min_compatibility \<le> rec_compatibility_score row" if "row \<in> set result" for row
  proof -
    from that obtain t where t: "t \<in> set top" and row: "row = enrich_recommendations rec t"
      by (auto simp: res split: if_splits)
    from t top_sub obtain c r where cr: "(c, r) \<in> set kept" and tm: "t = mk (c, r)"
      by auto
    from cr kept_sub have "min_compatibility \<le> pair_compatibility_score r"
      by (auto simp: compatible_def)
    then show ?thesis
      by (simp add: row tm mk_def enrich_recommendations_keeps)
  qed
  have flags: "\<not> exceeds (red_flag_score p) (red_flag_threshold rec)"
    if "gate" "row \<in> set result" "p \<in> set (profiles_df rec)" "profile_id p = candidate_id row"
    for row p
  proof
    assume ex: "exceeds (red_flag_score p) (red_flag_threshold rec)"
    from that(2) obtain t where t: "t \<in> set top" and row: "row = enrich_recommendations rec t"
      by (auto simp: res split: if_splits)
    from t top_sub obtain c r where cr: "(c, r) \<in> set kept" and tm: "t = mk (c, r)"
      by auto
    have cid: "candidate_id row = c"
      by (simp add: row tm mk_def enrich_recommendations_keeps)
    from cr that(1) have "c \<notin> flagged"
      by (auto simp: kept_def)
    moreover from ex that(3,4) cid have "c \<in> flagged"
      by (auto simp: flagged_def)
    ultimately show False by contradiction
  qed
  from srt len compat flags show ?thesis
    unfolding result_def gate_def by blast
qed

theorem recommend_for_user_sorted_filtered_witness:
  "filter_red_flags filtered \<and> ''red_flag_score'' \<in> set (profiles_columns filtered)
   \<and> map candidate_id (recommend_for_user filtered ''u'' 10 40 ''balanced'') = [''mentor'']
   \<and> length (recommend_for_user filtered ''u'' 10 40 ''balanced'') \<le> 10
   \<and> \<not> exceeds (red_flag_score ada) (red_flag_threshold filtered)"
proof -
  have gate: "filter_red_flags filtered \<and> ''red_flag_score'' \<in> set (profiles_columns filtered)"
    by (simp add: filtered_def unfiltered_def)
  have ids: "map candidate_id (recommend_for_user filtered ''u'' 10 40 ''balanced'') = [''mentor'']"
    by code_simp
  then obtain row where row: "recommend_for_user filtered ''u'' 10 40 ''balanced'' = [row]"
    and cid: "candidate_id row = ''mentor''"
    by auto
  have p: "ada \<in> set (profiles_df filtered)" "profile_id ada = candidate_id row"
    by (simp_all add: filtered_def unfiltered_def ada_def bare_profile_def cid)
  from recommend_for_user_sorted_filtered[of filtered "''u''" 10 40 "''balanced''"] gate row p
  have "length (recommend_for_user filtered ''u'' 10 40 ''balanced'') \<le> 10
        \<and> \<not> exceeds (red_flag_score ada) (red_flag_threshold filtered)"
    by auto
  with gate ids show ?thesis by blast
qed

text \<open>
  The claim as worded excludes red-flagged candidates for every recommender. With
  \<open>filter_red_flags\<close> switched off the candidate whose \<open>red_flag_score\<close> is 90, above the
  threshold 50, is returned first.
\<close>

theorem red_flag_filter_off_counterexample:
  "map candidate_id (recommend_for_user unfiltered ''u'' 10 40 ''balanced'') = [''peer'', ''mentor'']
   \<and> profiles_df unfiltered = [ada, flagged_bo]
   \<and> profile_id flagged_bo = ''peer''
   \<and> red_flag_score flagged_bo = Some 90
   \<and> red_flag_threshold unfiltered = 50
   \<and> exceeds (red_flag_score flagged_bo) (red_flag_threshold unfiltered)"
proof -
  have "map candidate_id (recommend_for_user unfiltered ''u'' 10 40 ''balanced'') = [''peer'', ''mentor'']"
    by code_simp
  then show ?thesis
    by (simp add: unfiltered_def flagged_bo_def bo_def bare_profile_def exceeds_def)
qed

text \<open>
  C7. Under the strategy \<open>"mentorship"\<close> the ranking score of a pair is 0.6 times its
  \<open>predicted_mentorship_value\<close> (0 when the frame has no such column) plus 0.4 times its
  \<open>compatibility_score\<close>, and this is the \<open>ranking_score\<close> of every returned row. A pair
  with mentorship value 90 and compatibility 50 scores 74, a pair with 40 and 80 scores 56,
  and the recommender returns the first above the second.
\<close>

theorem mentorship_ranking_score:
  "calculate_ranking_score r ''mentorship''
     = 0.6 * get_or (pair_mentorship_value r) 0 + 0.4 * pair_compatibility_score r
   \<and> (\<forall>row \<in> set (recommend_for_user rec user_id top_n min_compatibility ''mentorship'').
        ranking_score row
          = 0.6 * get_or (rec_mentorship_value row) 0 + 0.4 * rec_compatibility_score row)
   \<and> calculate_ranking_score mentor_pair ''mentorship'' = 74
   \<and> calculate_ranking_score peer_pair ''mentorship'' = 56
   \<and> map candidate_id (recommend_for_user scenario ''u'' 10 40 ''mentorship'') = [''mentor'', ''peer'']"
proof -
  have formula: "calculate_ranking_score r ''mentorship''
     = 0.6 * get_or (pair_mentorship_value r) 0 + 0.4 * pair_compatibility_score r" for r
    by (simp add: calculate_ranking_score_def Let_def)
  have rows: "ranking_score row
          = 0.6 * get_or (rec_mentorship_value row) 0 + 0.4 * rec_compatibility_score row"
    if "row \<in> set (recommend_for_user rec user_id top_n min_compatibility ''mentorship'')" for row
  proof -
    from that obtain t c r where row: "row = enrich_recommendations rec t"
      and t: "ranking_score t = calculate_ranking_score r ''mentorship''"
             "rec_mentorship_value t = pair_mentorship_value r"
             "rec_compatibility_score t = pair_compatibility_score r"
      unfolding recommend_for_user_def Let_def
      using nlargest_subset
      by (fastforce split: if_splits)
    show ?thesis
      by (simp add: row enrich_recommendations_keeps enrich_recommendations_keeps_mentorship t formula)
  qed
  have m: "calculate_ranking_score mentor_pair ''mentorship'' = 74"
    by (simp add: formula mentor_pair_def get_or_def)
  have p: "calculate_ranking_score peer_pair ''mentorship'' = 56"
    by (simp add: formula peer_pair_def get_or_def)
  have order: "map candidate_id (recommend_for_user scenario ''u'' 10 40 ''mentorship'') = [''mentor'', ''peer'']"
    by code_simp
  from formula rows m p order show ?thesis by blast
qed

theorem mentorship_ranking_score_witness:
  "map ranking_score (recommend_for_user scenario ''u'' 10 40 ''mentorship'') = [74, 56]
   \<and> calculate_ranking_score peer_pair ''mentorship''
       = 0.6 * get_or (pair_mentorship_value peer_pair) 0 + 0.4 * pair_compatibility_score peer_pair"
proof -
  have "map ranking_score (recommend_for_user scenario ''u'' 10 40 ''mentorship'') = [74, 56]"
    by code_simp
  with mentorship_ranking_score[of peer_pair scenario "''u''" 10 40] show ?thesis
    by blast
qed





text \<open>
  C10. For a user that appears in no pair record, \<open>recommend_for_user\<close> returns the empty
  result and \<open>get_hidden_gems\<close> returns the empty result without error, for every
  \<open>top_n\<close>, threshold and strategy.
\<close>

theorem unknown_user_empty_results:
  assumes "\<forall>r \<in> set (pairs_df rec). profile_a_id r \<noteq> user_id \<and> profile_b_id r \<noteq> user_id"
  shows "recommend_for_user rec user_id top_n min_compatibility strategy = []
         \<and> get_hidden_gems rec user_id top_n min_gem_score = Inr []"
proof -
  from assms have "filter (\<lambda>r. profile_a_id r = user_id \<or> profile_b_id r = user_id) (pairs_df rec) = []"
    by (auto simp: filter_empty_conv)
  then show ?thesis
    by (simp add: recommend_for_user_def get_hidden_gems_def)
qed

theorem unknown_user_empty_results_witness:
  "profile_a_id peer_pair \<noteq> ''nobody'' \<and> profile_b_id peer_pair \<noteq> ''nobody''
   \<and> profile_a_id mentor_pair \<noteq> ''nobody'' \<and> profile_b_id mentor_pair \<noteq> ''nobody''
   \<and> recommend_for_user scenario ''nobody'' 10 40 ''roi'' = []
   \<and> get_hidden_gems scenario ''nobody'' 10 60 = Inr []"
proof -
  have ids: "profile_a_id peer_pair \<noteq> ''nobody'' \<and> profile_b_id peer_pair \<noteq> ''nobody''
   \<and> profile_a_id mentor_pair \<noteq> ''nobody'' \<and> profile_b_id mentor_pair \<noteq> ''nobody''"
    by (simp add: peer_pair_def mentor_pair_def)
  then have "\<forall>r \<in> set (pairs_df scenario). profile_a_id r \<noteq> ''nobody'' \<and> profile_b_id r \<noteq> ''nobody''"
    by (simp add: scenario_def init_recommender_def)
  from unknown_user_empty_results[OF this, of 10 40 "''roi''" 60] ids show ?thesis
    by blast
qed


end
